theory Spec2Isabelle
  imports Main
begin

section \<open>JavaScript values\<close>

text \<open>
  The data that flows through the token and middleware code: the scalar values of JSON,
  and \<open>Undefined\<close> for a property that is absent. Token payloads, identities, request
  bodies and environment variables hold such values.
\<close>

datatype json = Undefined | Null | Bool bool | Num int | Str string

fun truthy :: "json \<Rightarrow> bool" where
  "truthy Undefined = False"
| "truthy Null = False"
| "truthy (Bool b) = b"
| "truthy (Num n) = (n \<noteq> 0)"
| "truthy (Str s) = (s \<noteq> [])"

text \<open>
  What a property lookup on an object literal can yield: a data value, or \<open>Builtin k\<close>,
  the function or object that every object literal inherits from \<open>Object.prototype\<close>
  under the property name \<open>k\<close>. Like every object it is truthy.
\<close>

datatype jsval = Data json | Builtin string

fun js_truthy :: "jsval \<Rightarrow> bool" where
  "js_truthy (Data v) = truthy v"
| "js_truthy (Builtin k) = True"

text \<open>The operator \<open>a || b\<close>.\<close>

definition js_or :: "jsval \<Rightarrow> jsval \<Rightarrow> jsval" where
  "js_or a b = (if js_truthy a then a else b)"

text \<open>
  Property lookup \<open>obj[k]\<close> on an object literal with the own properties \<open>props\<close>: an own
  property wins, then the prototype chain is searched, and only then is the result
  \<open>undefined\<close>.
\<close>

definition object_prototype_keys :: "string list" where
  "object_prototype_keys =
     [''constructor'', ''__proto__'', ''hasOwnProperty'', ''isPrototypeOf'',
      ''propertyIsEnumerable'', ''toLocaleString'', ''toString'', ''valueOf'',
      ''__defineGetter__'', ''__defineSetter__'', ''__lookupGetter__'', ''__lookupSetter__'']"

definition js_get :: "(string \<times> jsval) list \<Rightarrow> string \<Rightarrow> jsval" where
  "js_get props k =
     (case map_of props k of
        Some v \<Rightarrow> v
      | None \<Rightarrow> if k \<in> set object_prototype_keys then Builtin k else Data Undefined)"

text \<open>\<open>process.env\<close>: every variable that is set holds a string.\<close>

type_synonym env = "string \<rightharpoonup> string"

definition getenv :: "env \<Rightarrow> string \<Rightarrow> jsval" where
  "getenv e k = (case e k of None \<Rightarrow> Data Undefined | Some s \<Rightarrow> Data (Str s))"

section \<open>Errors\<close>

text \<open>
  Everything the modelled code can throw. \<open>ConfigurationError t\<close> is the plain \<open>Error\<close>
  with the message \<open>JWT secret not configured for token type: t\<close>; \<open>SignError\<close> is a plain
  \<open>Error\<close> raised by the token library when it refuses to sign; the next three are the
  library's verification errors; \<open>TypeError\<close> is a property read on \<open>undefined\<close>;
  \<open>SequelizeValidationError\<close> is a failed model validation.
\<close>

datatype exn =
    ConfigurationError string
  | SignError
  | JsonWebTokenError
  | TokenExpiredError
  | NotBeforeError
  | TypeError
  | SequelizeValidationError

fun exn_name :: "exn \<Rightarrow> string" where
  "exn_name (ConfigurationError t) = ''Error''"
| "exn_name SignError = ''Error''"
| "exn_name JsonWebTokenError = ''JsonWebTokenError''"
| "exn_name TokenExpiredError = ''TokenExpiredError''"
| "exn_name NotBeforeError = ''NotBeforeError''"
| "exn_name TypeError = ''TypeError''"
| "exn_name SequelizeValidationError = ''SequelizeValidationError''"

section \<open>Tokens\<close>

text \<open>
  The payload of a token. \<open>email\<close> and \<open>role\<close> are shared by the payload and by the
  identity \<open>{id, email, role}\<close> that the middleware attaches to a request and that the
  issuer receives, so both records extend \<open>subject\<close>. A property that is absent reads as
  \<open>Undefined\<close>; the numeric date claims are in seconds.
\<close>

record subject =
  email :: json
  role :: json

record identity = subject +
  id' :: json

record claims = subject +
  userId :: json
  tokenType :: json
  iat :: "nat option"
  nbf :: "nat option"
  exp :: "nat option"

text \<open>
  The cryptography of the \<open>jsonwebtoken\<close> package is symbolic: a signed token is the
  payload together with the key that signed it, and a signature verifies under exactly
  that key. The compact serialisation of a token is base64url text without spaces; its
  characters are not modelled, so a string on the wire is a list of symbols, each an
  ordinary character or one whole signed token.
\<close>

datatype jwt = JWT claims string

datatype wsym = Ch char | Tok jwt

type_synonym wire = "wsym list"

definition jsstr :: "string \<Rightarrow> wire" where
  "jsstr s = map Ch s"

text \<open>A value handed to the library where it expects a token string.\<close>

datatype arg = Missing | Text wire | NonString json

fun arg_truthy :: "arg \<Rightarrow> bool" where
  "arg_truthy Missing = False"
| "arg_truthy (Text w) = (w \<noteq> [])"
| "arg_truthy (NonString v) = truthy v"

text \<open>
  The time spans of the configuration, as the library reads them (\<open>15m\<close>, \<open>7d\<close>, \<open>1h\<close>, in
  seconds). No other value reaches \<open>jwt.sign\<close> as a string; a value that is no string is
  refused.
\<close>

fun timespan :: "jsval \<Rightarrow> nat option" where
  "timespan (Data (Str s)) =
     (if s = ''15m'' then Some 900
      else if s = ''7d'' then Some 604800
      else if s = ''1h'' then Some 3600
      else None)"
| "timespan v = None"

text \<open>
  \<open>jwt.sign(payload, secret, {expiresIn})\<close>: the key must be a non-empty string, the
  payload must not carry an \<open>exp\<close> of its own, and the expiry is counted from the
  payload's \<open>iat\<close>. Every refusal is a plain \<open>Error\<close> of the library.
\<close>

definition jwt_sign :: "claims \<Rightarrow> jsval \<Rightarrow> jsval \<Rightarrow> exn + wire" where
  "jwt_sign payload secret expiresIn =
     (case secret of
        Data (Str k) \<Rightarrow>
          (if k = [] \<or> exp payload \<noteq> None then Inl SignError
           else case (timespan expiresIn, iat payload) of
                  (Some d, Some t) \<Rightarrow> Inr [Tok (JWT (payload\<lparr>exp := Some (t + d)\<rparr>) k)]
                | _ \<Rightarrow> Inl SignError)
      | _ \<Rightarrow> Inl SignError)"

text \<open>
  \<open>jwt.verify(token, secret)\<close> at the clock reading \<open>now\<close>: anything that is not one
  well-formed token, and any token signed under another key, is a
  \<open>JsonWebTokenError\<close>; then \<open>nbf\<close> and \<open>exp\<close> are checked, in this order, and the
  payload is returned. A secret that is no string is no key material, which version 9 of
  the library reports as a \<open>JsonWebTokenError\<close> as well.
\<close>

definition jwt_verify :: "arg \<Rightarrow> jsval \<Rightarrow> nat \<Rightarrow> exn + claims" where
  "jwt_verify token secret now =
     (case token of
        Text [Tok (JWT c k)] \<Rightarrow>
          (if secret \<noteq> Data (Str k) then Inl JsonWebTokenError
           else if (case nbf c of Some n \<Rightarrow> now < n | None \<Rightarrow> False) then Inl NotBeforeError
           else if (case exp c of Some x \<Rightarrow> x \<le> now | None \<Rightarrow> False) then Inl TokenExpiredError
           else Inr c)
      | _ \<Rightarrow> Inl JsonWebTokenError)"

text \<open>\<open>jwt.decode(token)\<close>: the payload without any check, or \<open>null\<close>.\<close>

definition jwt_decode :: "arg \<Rightarrow> claims option" where
  "jwt_decode token = (case token of Text [Tok (JWT c k)] \<Rightarrow> Some c | _ \<Rightarrow> None)"

section \<open>config/jwt.js\<close>

definition ACCESS_TOKEN_EXPIRY :: string where "ACCESS_TOKEN_EXPIRY = ''15m''"
definition REFRESH_TOKEN_EXPIRY :: string where "REFRESH_TOKEN_EXPIRY = ''7d''"
definition RESET_TOKEN_EXPIRY :: string where "RESET_TOKEN_EXPIRY = ''1h''"

definition ACCESS :: string where "ACCESS = ''access''"
definition REFRESH :: string where "REFRESH = ''refresh''"
definition RESET :: string where "RESET = ''reset''"

definition getSecretByType :: "env \<Rightarrow> string \<Rightarrow> exn + jsval" where
  "getSecretByType e type =
     (let secrets =
            [(ACCESS, js_or (getenv e ''JWT_ACCESS_SECRET'') (getenv e ''JWT_SECRET'')),
             (REFRESH, js_or (getenv e ''JWT_REFRESH_SECRET'') (getenv e ''JWT_SECRET'')),
             (RESET, js_or (getenv e ''JWT_RESET_SECRET'') (getenv e ''JWT_SECRET''))];
          secret = js_get secrets type
      in if \<not> js_truthy secret then Inl (ConfigurationError type) else Inr secret)"

definition getExpiryByType :: "string \<Rightarrow> jsval" where
  "getExpiryByType type =
     (let expiries =
            [(ACCESS, Data (Str ACCESS_TOKEN_EXPIRY)),
             (REFRESH, Data (Str REFRESH_TOKEN_EXPIRY)),
             (RESET, Data (Str RESET_TOKEN_EXPIRY))]
      in js_or (js_get expiries type) (Data (Str ACCESS_TOKEN_EXPIRY)))"

text \<open>
  \<open>generateToken(payload, type)\<close> at the clock reading \<open>now\<close> (seconds): the spread
  \<open>{...payload, tokenType: type, iat: now}\<close> overwrites both properties.
\<close>

definition generateToken :: "env \<Rightarrow> claims \<Rightarrow> string \<Rightarrow> nat \<Rightarrow> exn + wire" where
  "generateToken e payload type now =
     (case getSecretByType e type of
        Inl err \<Rightarrow> Inl err
      | Inr secret \<Rightarrow>
          (let expiresIn = getExpiryByType type;
               tokenPayload = payload\<lparr>tokenType := Str type, iat := Some now\<rparr>
           in jwt_sign tokenPayload secret expiresIn))"

definition verifyToken :: "env \<Rightarrow> arg \<Rightarrow> string \<Rightarrow> nat \<Rightarrow> exn + claims" where
  "verifyToken e token type now =
     (case getSecretByType e type of
        Inl err \<Rightarrow> Inl err
      | Inr secret \<Rightarrow> jwt_verify token secret now)"

definition decodeToken :: "arg \<Rightarrow> claims option" where
  "decodeToken token = jwt_decode token"

record auth_tokens =
  accessToken :: wire
  refreshToken :: wire
  accessTokenExpiry :: string
  refreshTokenExpiry :: string

text \<open>
  \<open>generateAuthTokens(user)\<close>: only \<open>user.id\<close>, \<open>user.email\<close> and \<open>user.role\<close> are read,
  so any record that extends \<open>identity\<close> is accepted. The two calls of \<open>generateToken\<close>
  read the clock one after the other (\<open>t1\<close>, then \<open>t2\<close>).
\<close>

definition generateAuthTokens :: "env \<Rightarrow> 'a identity_scheme \<Rightarrow> nat \<Rightarrow> nat \<Rightarrow> exn + auth_tokens" where
  "generateAuthTokens e user t1 t2 =
     (let payload = \<lparr>email = email user, role = role user, userId = id' user,
                      tokenType = Undefined, iat = None, nbf = None, exp = None\<rparr>
      in case generateToken e payload ACCESS t1 of
           Inl err \<Rightarrow> Inl err
         | Inr access \<Rightarrow>
             (case generateToken e payload REFRESH t2 of
                Inl err \<Rightarrow> Inl err
              | Inr refresh \<Rightarrow>
                  Inr \<lparr>accessToken = access, refreshToken = refresh,
                       accessTokenExpiry = ACCESS_TOKEN_EXPIRY,
                       refreshTokenExpiry = REFRESH_TOKEN_EXPIRY\<rparr>))"

definition generateResetToken :: "env \<Rightarrow> json \<Rightarrow> nat \<Rightarrow> exn + wire" where
  "generateResetToken e mail now =
     generateToken e \<lparr>email = mail, role = Undefined, userId = Undefined,
                       tokenType = Undefined, iat = None, nbf = None, exp = None\<rparr> RESET now"

text \<open>
  The environment variable that holds the secret of a known token type, and what it means
  for a variable to be set: \<open>||\<close> skips a variable that is unset or empty.
\<close>

definition secret_variable :: "string \<Rightarrow> string" where
  "secret_variable type =
     (if type = ACCESS then ''JWT_ACCESS_SECRET''
      else if type = REFRESH then ''JWT_REFRESH_SECRET''
      else ''JWT_RESET_SECRET'')"

definition is_set :: "env \<Rightarrow> string \<Rightarrow> bool" where
  "is_set e v = (case e v of None \<Rightarrow> False | Some s \<Rightarrow> s \<noteq> [])"

section \<open>middleware/auth.js\<close>

text \<open>
  A JSON response body: \<open>{success, message, code}\<close>, and for the authorisation failure
  also \<open>requiredRoles\<close> and \<open>userRole\<close>.
\<close>

record body =
  success :: bool
  message :: string
  code :: string
  requiredRoles :: "json list option"
  userRole :: "json option"

definition reject :: "string \<Rightarrow> string \<Rightarrow> body" where
  "reject m c = \<lparr>success = False, message = m, code = c, requiredRoles = None, userRole = None\<rparr>"

text \<open>
  The parts of an Express request that the middleware reads or writes:
  \<open>req.headers.authorization\<close>, \<open>req.body.refreshToken\<close>, \<open>req.user\<close>,
  \<open>req.refreshTokenData\<close>, \<open>req.ip\<close> and \<open>req.path\<close>.
\<close>

record request =
  authorization :: "wire option"
  body_refreshToken :: arg
  user :: "identity option"
  refreshTokenData :: "claims option"
  ip :: string
  path :: string

text \<open>A middleware either sends a response (\<open>res.status(s).json(b)\<close>) or calls \<open>next()\<close>.\<close>

datatype outcome = Respond nat body | Next request

definition startsWith :: "'a list \<Rightarrow> 'a list \<Rightarrow> bool" where
  "startsWith s p = (take (length p) s = p)"

text \<open>\<open>s.split(sep)\<close> for a one-character separator: empty segments are kept.\<close>

fun js_split :: "'a \<Rightarrow> 'a list \<Rightarrow> 'a list list" where
  "js_split sep [] = [[]]"
| "js_split sep (x # xs) =
     (if x = sep then [] # js_split sep xs
      else case js_split sep xs of
             p # ps \<Rightarrow> (x # p) # ps
           | [] \<Rightarrow> [[x]])"

text \<open>\<open>parts[i]\<close>: out of range it is \<open>undefined\<close>.\<close>

definition js_index :: "wire list \<Rightarrow> nat \<Rightarrow> arg" where
  "js_index parts i = (if i < length parts then Text (parts ! i) else Missing)"

definition bearer_token :: "wire \<Rightarrow> arg" where
  "bearer_token authHeader = js_index (js_split (Ch CHR '' '') authHeader) 1"

definition has_bearer :: "wire option \<Rightarrow> bool" where
  "has_bearer h =
     (case h of None \<Rightarrow> False | Some authHeader \<Rightarrow> authHeader \<noteq> [] \<and> startsWith authHeader (jsstr ''Bearer ''))"

definition attach_user :: "claims \<Rightarrow> request \<Rightarrow> request" where
  "attach_user decoded req =
     req\<lparr>user := Some \<lparr>email = email decoded, role = role decoded, id' = userId decoded\<rparr>\<rparr>"

definition authenticate :: "env \<Rightarrow> nat \<Rightarrow> request \<Rightarrow> outcome" where
  "authenticate e now req =
     (if \<not> has_bearer (authorization req)
      then Respond 401 (reject ''Access denied. No token provided.'' ''NO_TOKEN'')
      else case verifyToken e (bearer_token (the (authorization req))) ACCESS now of
             Inr decoded \<Rightarrow>
               (if tokenType decoded \<noteq> Str ACCESS
                then Respond 401 (reject ''Invalid token type.'' ''INVALID_TOKEN_TYPE'')
                else Next (attach_user decoded req))
           | Inl error \<Rightarrow>
               (if exn_name error = ''TokenExpiredError''
                then Respond 401 (reject ''Token has expired. Please refresh your token.'' ''TOKEN_EXPIRED'')
                else if exn_name error = ''JsonWebTokenError''
                then Respond 401 (reject ''Invalid token.'' ''MALFORMED_TOKEN'')
                else Respond 401 (reject ''Invalid or expired token.'' ''INVALID_TOKEN'')))"

definition authorize :: "json list \<Rightarrow> request \<Rightarrow> outcome" where
  "authorize allowedRoles req =
     (case user req of
        None \<Rightarrow> Respond 401 (reject ''User not authenticated.'' ''NOT_AUTHENTICATED'')
      | Some u \<Rightarrow>
          (if role u \<notin> set allowedRoles
           then Respond 403
                  \<lparr>success = False,
                   message = ''You do not have permission to perform this action.'',
                   code = ''INSUFFICIENT_PERMISSIONS'',
                   requiredRoles = Some allowedRoles,
                   userRole = Some (role u)\<rparr>
           else Next req))"


definition verifyRefreshToken :: "env \<Rightarrow> nat \<Rightarrow> request \<Rightarrow> outcome" where
  "verifyRefreshToken e now req =
     (let refreshToken = body_refreshToken req
      in if \<not> arg_truthy refreshToken
         then Respond 400 (reject ''Refresh token is required.'' ''NO_REFRESH_TOKEN'')
         else case verifyToken e refreshToken REFRESH now of
                Inr decoded \<Rightarrow>
                  (if tokenType decoded \<noteq> Str REFRESH
                   then Respond 401 (reject ''Invalid refresh token type.'' ''INVALID_REFRESH_TOKEN'')
                   else Next (req\<lparr>refreshTokenData := Some decoded\<rparr>))
              | Inl error \<Rightarrow>
                  (if exn_name error = ''TokenExpiredError''
                   then Respond 401
                          (reject ''Refresh token has expired. Please log in again.''
                             ''REFRESH_TOKEN_EXPIRED'')
                   else Respond 401 (reject ''Invalid refresh token.'' ''INVALID_REFRESH_TOKEN'')))"

section \<open>The User model\<close>

text \<open>
  The text of the \<open>password\<close> attribute. Hashing is symbolic, as signing is:
  \<open>Bcrypt rounds salt p\<close> is the 60-character bcrypt string computed from the text \<open>p\<close>
  with the given cost and salt.
\<close>

datatype ptext = Plain string | Bcrypt nat string ptext

fun ptext_length :: "ptext \<Rightarrow> nat" where
  "ptext_length (Plain s) = length s"
| "ptext_length (Bcrypt rounds salt p) = 60"

text \<open>
  \<open>bcrypt.genSalt(rounds)\<close> draws the salt at random; the draw \<open>rnd\<close> is an input of the
  model.
\<close>

definition bcrypt_genSalt :: "nat \<Rightarrow> string \<Rightarrow> nat \<times> string" where
  "bcrypt_genSalt rounds rnd = (rounds, rnd)"

definition bcrypt_hash :: "ptext \<Rightarrow> nat \<times> string \<Rightarrow> ptext" where
  "bcrypt_hash p salt = Bcrypt (fst salt) (snd salt) p"

text \<open>
  A row of the model: \<open>id\<close>, \<open>email\<close> and \<open>role\<close> come from \<open>identity\<close>; \<open>changed\<close> is
  the set of attribute names that Sequelize reports through \<open>user.changed(name)\<close>.
  Attributes that no modelled function reads (\<open>emailVerified\<close>, \<open>lastLogin\<close>, the
  timestamps) are left out. A password is a string or, as \<open>None\<close>, not there: the row was
  loaded without it (the default scope) or it was never given. The value \<open>null\<close> is not
  told apart from that; the callers assign strings.
\<close>

record user = identity +
  username :: string
  password :: "ptext option"
  displayName :: "string option"
  isActive :: bool
  changed :: "string set"

text \<open>An assignment to an attribute marks it as changed when the value differs.\<close>

definition set_password :: "ptext option \<Rightarrow> user \<Rightarrow> user" where
  "set_password v u =
     u\<lparr>password := v,
       changed := (if password u \<noteq> v then insert ''password'' (changed u) else changed u)\<rparr>"

definition set_displayName :: "string option \<Rightarrow> user \<Rightarrow> user" where
  "set_displayName v u =
     u\<lparr>displayName := v,
       changed := (if displayName u \<noteq> v then insert ''displayName'' (changed u) else changed u)\<rparr>"

definition hashPassword :: "string \<Rightarrow> user \<Rightarrow> exn + user" where
  "hashPassword rnd u =
     (case password u of
        Some p \<Rightarrow>
          (if p \<noteq> Plain []
           then (let salt = bcrypt_genSalt 10 rnd in Inr (set_password (Some (bcrypt_hash p salt)) u))
           else Inr u)
      | None \<Rightarrow> Inr u)"

definition beforeCreate :: "string \<Rightarrow> user \<Rightarrow> exn + user" where
  "beforeCreate rnd u =
     (case hashPassword rnd u of
        Inl err \<Rightarrow> Inl err
      | Inr u1 \<Rightarrow>
          (if displayName u1 = None \<or> displayName u1 = Some []
           then Inr (set_displayName (Some (username u1)) u1)
           else Inr u1))"

definition beforeUpdate :: "string \<Rightarrow> user \<Rightarrow> exn + user" where
  "beforeUpdate rnd u = (if ''password'' \<in> changed u then hashPassword rnd u else Inr u)"

text \<open>
  The rules the model declares for \<open>password\<close>: \<open>allowNull: false\<close> and
  \<open>len: [8, 100]\<close>.
\<close>

definition password_valid :: "user \<Rightarrow> bool" where
  "password_valid u =
     (case password u of
        None \<Rightarrow> False
      | Some p \<Rightarrow> 8 \<le> ptext_length p \<and> ptext_length p \<le> 100)"

text \<open>
  Sequelize writes a row in this order: the attributes are validated (all of them for a
  new row, the changed ones for an existing row), then the \<open>beforeCreate\<close> or
  \<open>beforeUpdate\<close> hook runs, and what the hook returns is stored. Of the validation only
  the rules of \<open>password\<close> are modelled; the rules of the other attributes can only
  reject more writes. The result is the row as stored.
\<close>

definition create :: "string \<Rightarrow> user \<Rightarrow> exn + user" where
  "create rnd u = (if \<not> password_valid u then Inl SequelizeValidationError else beforeCreate rnd u)"

definition save :: "string \<Rightarrow> user \<Rightarrow> exn + user" where
  "save rnd u =
     (if ''password'' \<in> changed u \<and> \<not> password_valid u then Inl SequelizeValidationError
      else beforeUpdate rnd u)"

section \<open>The controller: resetPassword\<close>

text \<open>\<open>s.toLowerCase()\<close> on ASCII text; on a value that is no string it throws.\<close>

definition lower_char :: "char \<Rightarrow> char" where
  "lower_char c =
     (case map_of (zip ''ABCDEFGHIJKLMNOPQRSTUVWXYZ'' ''abcdefghijklmnopqrstuvwxyz'') c of
        Some l \<Rightarrow> l
      | None \<Rightarrow> c)"

fun toLowerCase :: "json \<Rightarrow> exn + json" where
  "toLowerCase (Str s) = Inr (Str (map lower_char s))"
| "toLowerCase v = Inl TypeError"

text \<open>
  \<open>resetPassword\<close> either answers with an error response or stores the row with the new
  password and answers 200 (\<open>ResetDone\<close>, with the row as stored). \<open>findOne\<close> is the
  lookup \<open>User.findOne({where: {email: ...}})\<close> of the persistence layer. Every error
  thrown on the way is caught by the handler's \<open>catch\<close>.
\<close>

datatype reset_outcome = ResetRejected nat body | ResetDone user

definition resetPassword_catch :: "exn \<Rightarrow> reset_outcome" where
  "resetPassword_catch error =
     (if exn_name error = ''TokenExpiredError''
      then ResetRejected 400
             (reject ''Reset token has expired. Please request a new password reset.''
                ''RESET_TOKEN_EXPIRED'')
      else ResetRejected 400 (reject ''Invalid or expired reset token'' ''INVALID_RESET_TOKEN''))"

definition resetPassword ::
  "env \<Rightarrow> (json \<Rightarrow> user option) \<Rightarrow> string \<Rightarrow> nat \<Rightarrow> arg \<Rightarrow> ptext option \<Rightarrow> reset_outcome" where
  "resetPassword e findOne rnd now token new_password =
     (case verifyToken e token RESET now of
        Inl error \<Rightarrow> resetPassword_catch error
      | Inr decoded \<Rightarrow>
          (case toLowerCase (email decoded) of
             Inl error \<Rightarrow> resetPassword_catch error
           | Inr mail \<Rightarrow>
               (case findOne mail of
                  None \<Rightarrow> ResetRejected 400 (reject ''Invalid reset token'' ''INVALID_RESET_TOKEN'')
                | Some u \<Rightarrow>
                    (if \<not> isActive u
                     then ResetRejected 403 (reject ''Account is deactivated'' ''ACCOUNT_DEACTIVATED'')
                     else case save rnd (set_password new_password u) of
                            Inl error \<Rightarrow> resetPassword_catch error
                          | Inr stored \<Rightarrow> ResetDone stored))))"

section \<open>middleware/rateLimit.js\<close>

text \<open>
  The options of \<open>express-rate-limit\<close> that decide whether a request is admitted, as the
  general configuration sets them or leaves them at their defaults: without
  \<open>keyGenerator\<close> the key is \<open>req.ip\<close>, without \<open>skip\<close> no request is exempt. The answer
  to a blocked request is status 429 with the configured message. The configurations
  \<open>auth\<close> and \<open>passwordReset\<close> are built in the same way, also without \<open>skip\<close>; \<open>auth\<close>
  sets \<open>skipSuccessfulRequests\<close> as well, which takes a request out of the count again
  once its response has succeeded, and is not modelled.
\<close>

record limiter_config =
  windowMs :: nat
  max' :: nat
  message' :: body
  keyGenerator :: "(request \<Rightarrow> string) option"
  skip :: "(request \<Rightarrow> bool) option"

definition general :: limiter_config where
  "general =
     \<lparr>windowMs = 15 * 60 * 1000, max' = 100,
      message' = reject ''Too many requests from this IP, please try again later.''
                   ''RATE_LIMIT_EXCEEDED'',
      keyGenerator = None, skip = None\<rparr>"

text \<open>
  The counters of the limiter's store: for each key the hits of the current window and
  the time (milliseconds) at which the window ends, as the memory store of version 7
  keeps them.
\<close>

type_synonym store = "string \<rightharpoonup> nat \<times> nat"

text \<open>
  The middleware \<open>rateLimit(cfg)\<close> on one request at the time \<open>now\<close>: an exempt request
  passes uncounted; otherwise the key's counter is incremented, in a fresh window when
  the old one has ended, and the request is blocked when the count exceeds \<open>max\<close>.
\<close>

definition rateLimit :: "limiter_config \<Rightarrow> store \<Rightarrow> nat \<Rightarrow> request \<Rightarrow> outcome \<times> store" where
  "rateLimit cfg st now req =
     (if (case skip cfg of Some f \<Rightarrow> f req | None \<Rightarrow> False) then (Next req, st)
      else
        (let key = (case keyGenerator cfg of Some g \<Rightarrow> g req | None \<Rightarrow> ip req);
             window = (case st key of
                         Some (hits, resetTime) \<Rightarrow>
                           if resetTime \<le> now then (0, now + windowMs cfg) else (hits, resetTime)
                       | None \<Rightarrow> (0, now + windowMs cfg));
             totalHits = fst window + 1;
             st' = st(key \<mapsto> (totalHits, snd window))
         in if max' cfg < totalHits then (Respond 429 (message' cfg), st') else (Next req, st')))"

definition generalLimiter :: "store \<Rightarrow> nat \<Rightarrow> request \<Rightarrow> outcome \<times> store" where
  "generalLimiter = rateLimit general"

definition skipRateLimit :: "request \<Rightarrow> bool" where
  "skipRateLimit req =
     (if (case user req of Some u \<Rightarrow> role u = Str ''admin'' | None \<Rightarrow> False) then True
      else if path req \<in> set [''/api/health'', ''/api/docs''] then True
      else False)"

text \<open>A client sends the requests \<open>reqs\<close> one after the other through a limiter, all at the time \<open>now\<close>.\<close>

fun serve :: "(store \<Rightarrow> nat \<Rightarrow> request \<Rightarrow> outcome \<times> store) \<Rightarrow> store \<Rightarrow> nat \<Rightarrow> request list \<Rightarrow> outcome list \<times> store" where
  "serve limiter st now [] = ([], st)"
| "serve limiter st now (r # rs) =
     (case limiter st now r of
        (out, st1) \<Rightarrow> (case serve limiter st1 now rs of (outs, st2) \<Rightarrow> (out # outs, st2)))"

section \<open>Example inputs\<close>

text \<open>One deployment with only the shared secret set, and one with no secret at all.\<close>

definition env_shared :: env where
  "env_shared = [''JWT_SECRET'' \<mapsto> ''s3cret'']"

definition env_unset :: env where
  "env_unset = Map.empty"

definition alice :: identity where
  "alice = \<lparr>email = Str ''alice@example.org'', role = Str ''moderator'', id' = Num 7\<rparr>"

text \<open>The tokens that \<open>generateAuthTokens\<close> issues for \<open>alice\<close> at the time 1000.\<close>

definition alice_access :: wire where
  "alice_access =
     [Tok (JWT \<lparr>email = Str ''alice@example.org'', role = Str ''moderator'', userId = Num 7,
                tokenType = Str ''access'', iat = Some 1000, nbf = None, exp = Some 1900\<rparr> ''s3cret'')]"

definition alice_refresh :: wire where
  "alice_refresh =
     [Tok (JWT \<lparr>email = Str ''alice@example.org'', role = Str ''moderator'', userId = Num 7,
                tokenType = Str ''refresh'', iat = Some 1000, nbf = None, exp = Some 605800\<rparr> ''s3cret'')]"

definition plain_request :: request where
  "plain_request =
     \<lparr>authorization = None, body_refreshToken = Missing, user = None, refreshTokenData = None,
      ip = ''203.0.113.9'', path = ''/api/protected''\<rparr>"

definition bearer :: "wire \<Rightarrow> request" where
  "bearer w = plain_request\<lparr>authorization := Some (jsstr ''Bearer '' @ w)\<rparr>"


text \<open>The payload that \<open>generateAuthTokens\<close> builds for \<open>alice\<close>.\<close>

definition alice_payload :: claims where
  "alice_payload =
     \<lparr>email = Str ''alice@example.org'', role = Str ''moderator'', userId = Num 7,
      tokenType = Undefined, iat = None, nbf = None, exp = None\<rparr>"



text \<open>
  A new user as \<open>register\<close> hands it to \<open>User.create\<close>, the row once it is stored, and
  the row of \<open>alice\<close> as the default scope loads it (without the password).
\<close>

definition bob :: user where
  "bob =
     \<lparr>email = Str ''bob@example.org'', role = Str ''user'', id' = Num 8, username = ''bob'',
      password = Some (Plain ''Password123!''), displayName = None, isActive = True,
      changed = {}\<rparr>"

definition bob_row :: user where
  "bob_row =
     \<lparr>email = Str ''bob@example.org'', role = Str ''user'', id' = Num 8, username = ''bob'',
      password = Some (Bcrypt 10 ''saltsaltsaltsaltsalt22'' (Plain ''Password123!'')),
      displayName = Some ''bob'', isActive = True, changed = {}\<rparr>"

definition alice_row :: user where
  "alice_row =
     \<lparr>email = Str ''alice@example.org'', role = Str ''moderator'', id' = Num 7,
      username = ''alice'', password = None, displayName = Some ''Alice'', isActive = True,
      changed = {}\<rparr>"

definition find_alice :: "json \<Rightarrow> user option" where
  "find_alice mail = (if mail = Str ''alice@example.org'' then Some alice_row else None)"

text \<open>A request that carries the identity of an administrator.\<close>

definition admin_request :: request where
  "admin_request =
     \<lparr>authorization = None, body_refreshToken = Missing,
      user = Some \<lparr>email = Str ''root@example.org'', role = Str ''admin'', id' = Num 1\<rparr>,
      refreshTokenData = None, ip = ''203.0.113.9'', path = ''/api/posts''\<rparr>"

section \<open>Auxiliary facts\<close>

lemmas jwt_consts = ACCESS_def REFRESH_def RESET_def ACCESS_TOKEN_EXPIRY_def REFRESH_TOKEN_EXPIRY_def RESET_TOKEN_EXPIRY_def

lemma type_names_distinct:
  "ACCESS \<noteq> REFRESH" "ACCESS \<noteq> RESET" "REFRESH \<noteq> RESET"
  "REFRESH \<noteq> ACCESS" "RESET \<noteq> ACCESS" "RESET \<noteq> REFRESH"
  by (simp_all add: jwt_consts)

lemma has_bearer_iff: "has_bearer h \<longleftrightarrow> (\<exists>w. h = Some w \<and> startsWith w (jsstr ''Bearer ''))"
  by (auto simp: has_bearer_def startsWith_def jsstr_def split: option.splits)

lemma getenv_cases: "getenv e k = Data Undefined \<or> (\<exists>s. getenv e k = Data (Str s))"
  by (simp add: getenv_def split: option.splits)

lemma js_or_getenv_cases:
  "js_or (getenv e a) (getenv e b) = Data Undefined
     \<or> (\<exists>s. js_or (getenv e a) (getenv e b) = Data (Str s))"
  using getenv_cases[of e a] getenv_cases[of e b] by (auto simp: js_or_def)

lemma truthy_getenv: "js_truthy (getenv e v) = is_set e v"
  by (simp add: getenv_def is_set_def split: option.splits)

lemma truthy_js_or: "js_truthy (js_or a b) = (js_truthy a \<or> js_truthy b)"
  by (simp add: js_or_def)

lemma getSecretByType_ACCESS:
  "getSecretByType e ACCESS =
     (if js_truthy (js_or (getenv e ''JWT_ACCESS_SECRET'') (getenv e ''JWT_SECRET''))
      then Inr (js_or (getenv e ''JWT_ACCESS_SECRET'') (getenv e ''JWT_SECRET''))
      else Inl (ConfigurationError ACCESS))"
  by (simp add: getSecretByType_def js_get_def jwt_consts)

lemma getSecretByType_REFRESH:
  "getSecretByType e REFRESH =
     (if js_truthy (js_or (getenv e ''JWT_REFRESH_SECRET'') (getenv e ''JWT_SECRET''))
      then Inr (js_or (getenv e ''JWT_REFRESH_SECRET'') (getenv e ''JWT_SECRET''))
      else Inl (ConfigurationError REFRESH))"
  by (simp add: getSecretByType_def js_get_def jwt_consts)

lemma getSecretByType_RESET:
  "getSecretByType e RESET =
     (if js_truthy (js_or (getenv e ''JWT_RESET_SECRET'') (getenv e ''JWT_SECRET''))
      then Inr (js_or (getenv e ''JWT_RESET_SECRET'') (getenv e ''JWT_SECRET''))
      else Inl (ConfigurationError RESET))"
  by (simp add: getSecretByType_def js_get_def jwt_consts)

lemma getSecretByType_known:
  assumes "type \<in> {ACCESS, REFRESH, RESET}"
  shows "getSecretByType e type =
           (if is_set e (secret_variable type) \<or> is_set e ''JWT_SECRET''
            then Inr (js_or (getenv e (secret_variable type)) (getenv e ''JWT_SECRET''))
            else Inl (ConfigurationError type))"
proof -
  from assms consider "type = ACCESS" | "type = REFRESH" | "type = RESET" by auto
  then show ?thesis
  proof cases
    case 1
    then show ?thesis
      by (simp add: getSecretByType_ACCESS truthy_js_or truthy_getenv secret_variable_def)
  next
    case 2
    then show ?thesis
      by (simp add: getSecretByType_REFRESH truthy_js_or truthy_getenv secret_variable_def type_names_distinct)
  next
    case 3
    then show ?thesis
      by (simp add: getSecretByType_RESET truthy_js_or truthy_getenv secret_variable_def type_names_distinct)
  qed
qed

lemma getSecretByType_known_Inr:
  assumes "type \<in> {ACCESS, REFRESH, RESET}" and "getSecretByType e type = Inr s"
  shows "\<exists>k. s = Data (Str k) \<and> k \<noteq> []"
proof -
  from assms(1) consider "type = ACCESS" | "type = REFRESH" | "type = RESET" by auto
  then show ?thesis
  proof cases
    case 1
    with assms(2) js_or_getenv_cases[of e "''JWT_ACCESS_SECRET''" "''JWT_SECRET''"] show ?thesis
      by (auto simp: getSecretByType_ACCESS split: if_splits)
  next
    case 2
    with assms(2) js_or_getenv_cases[of e "''JWT_REFRESH_SECRET''" "''JWT_SECRET''"] show ?thesis
      by (auto simp: getSecretByType_REFRESH split: if_splits)
  next
    case 3
    with assms(2) js_or_getenv_cases[of e "''JWT_RESET_SECRET''" "''JWT_SECRET''"] show ?thesis
      by (auto simp: getSecretByType_RESET split: if_splits)
  qed
qed


lemma getExpiryByType_known:
  "getExpiryByType ACCESS = Data (Str ''15m'')"
  "getExpiryByType REFRESH = Data (Str ''7d'')"
  "getExpiryByType RESET = Data (Str ''1h'')"
  by (simp_all add: getExpiryByType_def js_get_def js_or_def jwt_consts)

lemma generateToken_known:
  assumes "getSecretByType e type = Inr (Data (Str k))" and "k \<noteq> []" and "exp p = None"
    and "timespan (getExpiryByType type) = Some d"
  shows "generateToken e p type now =
           Inr [Tok (JWT (p\<lparr>tokenType := Str type, iat := Some now, exp := Some (now + d)\<rparr>) k)]"
  using assms by (simp add: generateToken_def jwt_sign_def Let_def)

lemma verifyToken_signed:
  assumes "getSecretByType e type = Inr (Data (Str k))"
  shows "verifyToken e (Text [Tok (JWT c k)]) type now =
           (if (case nbf c of Some n \<Rightarrow> now < n | None \<Rightarrow> False) then Inl NotBeforeError
            else if (case exp c of Some x \<Rightarrow> x \<le> now | None \<Rightarrow> False) then Inl TokenExpiredError
            else Inr c)"
  using assms by (simp add: verifyToken_def jwt_verify_def)

lemma jwt_sign_not_config: "jwt_sign p s x \<noteq> Inl (ConfigurationError t)"
  by (auto simp: jwt_sign_def split: jsval.splits json.splits option.splits)

lemma jwt_verify_not_config: "jwt_verify tok s now \<noteq> Inl (ConfigurationError t)"
  by (auto simp: jwt_verify_def split: arg.splits list.splits wsym.splits jwt.splits)

lemma env_shared_secret:
  "getSecretByType env_shared ACCESS = Inr (Data (Str ''s3cret''))"
  "getSecretByType env_shared REFRESH = Inr (Data (Str ''s3cret''))"
  "getSecretByType env_shared RESET = Inr (Data (Str ''s3cret''))"
  by (simp_all add: getSecretByType_ACCESS getSecretByType_REFRESH getSecretByType_RESET env_shared_def js_or_def getenv_def)

lemma generateAuthTokens_env_shared_alice:
  "generateAuthTokens env_shared alice 1000 1000 =
     Inr \<lparr>accessToken = [Tok (JWT \<lparr>email = Str ''alice@example.org'', role = Str ''moderator'',
                                    userId = Num 7, tokenType = Str ''access'', iat = Some 1000,
                                    nbf = None, exp = Some 1900\<rparr> ''s3cret'')],
          refreshToken = [Tok (JWT \<lparr>email = Str ''alice@example.org'', role = Str ''moderator'',
                                    userId = Num 7, tokenType = Str ''refresh'', iat = Some 1000,
                                    nbf = None, exp = Some 605800\<rparr> ''s3cret'')],
          accessTokenExpiry = ''15m'', refreshTokenExpiry = ''7d''\<rparr>"
  by (simp add: generateAuthTokens_def generateToken_def env_shared_secret getExpiryByType_known
      jwt_sign_def alice_def ACCESS_TOKEN_EXPIRY_def REFRESH_TOKEN_EXPIRY_def)
     (simp add: ACCESS_def REFRESH_def)

lemma generateToken_alice_access:
  "generateToken env_shared alice_payload ACCESS 1000 = Inr alice_access"
  by (simp add: generateToken_known[OF env_shared_secret(1), where d = 900] getExpiryByType_known
      alice_payload_def alice_access_def)
     (simp add: ACCESS_def)

lemma bearer_header:
  "authorization (bearer w) = Some (jsstr ''Bearer '' @ w)"
  "startsWith (jsstr ''Bearer '' @ w) (jsstr ''Bearer '')"
  by (simp_all add: bearer_def startsWith_def jsstr_def)










lemma Bcrypt_neq: "Bcrypt n s p \<noteq> p"
  by (induction p) auto

lemma hashPassword_truthy:
  "password u = Some p \<Longrightarrow> p \<noteq> Plain [] \<Longrightarrow>
     hashPassword rnd u = Inr (set_password (Some (Bcrypt 10 rnd p)) u)"
  by (simp add: hashPassword_def bcrypt_genSalt_def bcrypt_hash_def)

lemma password_valid_truthy:
  "password_valid u \<Longrightarrow> \<exists>p. password u = Some p \<and> p \<noteq> Plain []"
  by (auto simp: password_valid_def split: option.splits)











section \<open>Token types\<close>

text \<open>
  \<open>verifyToken\<close> checks the signature and the date claims only. When the secrets are
  shared, it accepts an access token under the type \<open>refresh\<close>; the middleware
  \<open>verifyRefreshToken\<close> then compares \<open>tokenType\<close> itself and answers with the
  type-mismatch response, at any time before the token expires.
\<close>

lemma access_token_rejected_as_refresh_token:
  assumes "generateToken e payload ACCESS t0 = Inr tok"
    and "getSecretByType e REFRESH = getSecretByType e ACCESS"
    and "now < t0 + 900"
    and "nbf payload = None"
  shows "(\<exists>c. verifyToken e (Text tok) REFRESH now = Inr c \<and> tokenType c = Str ''access'')
       \<and> verifyRefreshToken e now (req\<lparr>body_refreshToken := Text tok\<rparr>) =
           Respond 401 (reject ''Invalid refresh token type.'' ''INVALID_REFRESH_TOKEN'')"
proof -
  from assms(1) obtain s where s: "getSecretByType e ACCESS = Inr s"
    by (auto simp: generateToken_def split: sum.splits)
  then obtain k where k: "s = Data (Str k)" "k \<noteq> []"
    using getSecretByType_known_Inr[of ACCESS e s] by auto
  from assms(1) s k have x: "exp payload = None"
    by (auto simp: generateToken_def jwt_sign_def Let_def split: if_splits)
  have tok: "tok = [Tok (JWT (payload\<lparr>tokenType := Str ACCESS, iat := Some t0, exp := Some (t0 + 900)\<rparr>) k)]"
    using assms(1) generateToken_known[of e ACCESS k payload 900 t0] s k x
    by (simp add: getExpiryByType_known)
  have r: "getSecretByType e REFRESH = Inr (Data (Str k))"
    using assms(2) s k by simp
  have v: "verifyToken e (Text tok) REFRESH now =
             Inr (payload\<lparr>tokenType := Str ACCESS, iat := Some t0, exp := Some (t0 + 900)\<rparr>)"
    using assms(3,4) x by (simp add: tok verifyToken_signed[OF r])
  have a: "\<exists>c. verifyToken e (Text tok) REFRESH now = Inr c \<and> tokenType c = Str ''access''"
    by (simp add: v ACCESS_def)
  have b: "verifyRefreshToken e now (req\<lparr>body_refreshToken := Text tok\<rparr>) =
           Respond 401 (reject ''Invalid refresh token type.'' ''INVALID_REFRESH_TOKEN'')"
  proof -
    have ne: "tok \<noteq> []" by (simp add: tok)
    show ?thesis
      by (simp add: verifyRefreshToken_def Let_def v ne type_names_distinct)
  qed
  from a b show ?thesis by blast
qed

lemma access_token_rejected_as_refresh_token_example:
  "generateToken env_shared alice_payload ACCESS 1000 = Inr alice_access
   \<and> (\<exists>c. verifyToken env_shared (Text alice_access) REFRESH 1500 = Inr c \<and> tokenType c = Str ''access'')
   \<and> verifyRefreshToken env_shared 1500 (plain_request\<lparr>body_refreshToken := Text alice_access\<rparr>) =
        Respond 401 (reject ''Invalid refresh token type.'' ''INVALID_REFRESH_TOKEN'')"
proof -
  have s: "getSecretByType env_shared REFRESH = getSecretByType env_shared ACCESS"
    by (simp add: env_shared_secret)
  have t: "(1500::nat) < 1000 + 900" by simp
  have n: "nbf alice_payload = None" by (simp add: alice_payload_def)
  from access_token_rejected_as_refresh_token[OF generateToken_alice_access s t n, of plain_request]
    generateToken_alice_access
  show ?thesis by blast
qed

text \<open>
  Claim C1. The type of a token is enforced in two layers: \<open>verifyToken\<close> never reads
  \<open>tokenType\<close>, and every caller compares it with the type it expects. The callers in
  the middleware do; the controller's \<open>resetPassword\<close> does not. With the shared secret
  the access token issued for \<open>alice\<close> is accepted by \<open>resetPassword\<close> as a reset token:
  the handler answers 200 and stores the new password.
\<close>

theorem resetPassword_accepts_access_token:
  "generateToken env_shared alice_payload ACCESS 1000 = Inr alice_access
   \<and> resetPassword env_shared find_alice ''saltsaltsaltsaltsalt22'' 1500 (Text alice_access)
        (Some (Plain ''N3wPassword!'')) =
      ResetDone (alice_row\<lparr>password := Some (Bcrypt 10 ''saltsaltsaltsaltsalt22'' (Plain ''N3wPassword!'')),
                           changed := {''password''}\<rparr>)"
proof -
  have v: "verifyToken env_shared (Text alice_access) RESET 1500 =
     Inr \<lparr>email = Str ''alice@example.org'', role = Str ''moderator'', userId = Num 7,
          tokenType = Str ''access'', iat = Some 1000, nbf = None, exp = Some 1900\<rparr>"
    by (simp add: alice_access_def verifyToken_signed[OF env_shared_secret(3)])
  have s: "save ''saltsaltsaltsaltsalt22'' (set_password (Some (Plain ''N3wPassword!'')) alice_row) =
      Inr (alice_row\<lparr>password := Some (Bcrypt 10 ''saltsaltsaltsaltsalt22'' (Plain ''N3wPassword!'')),
                           changed := {''password''}\<rparr>)"
    by (simp add: save_def beforeUpdate_def set_password_def alice_row_def password_valid_def
      hashPassword_def bcrypt_genSalt_def bcrypt_hash_def)
  have r: "resetPassword env_shared find_alice ''saltsaltsaltsaltsalt22'' 1500 (Text alice_access)
        (Some (Plain ''N3wPassword!'')) =
      ResetDone (alice_row\<lparr>password := Some (Bcrypt 10 ''saltsaltsaltsaltsalt22'' (Plain ''N3wPassword!'')),
                           changed := {''password''}\<rparr>)"
    by (simp add: resetPassword_def v lower_char_def find_alice_def s)
       (simp add: alice_row_def)
  from generateToken_alice_access r show ?thesis by blast
qed

section \<open>Authentication of a request\<close>




section \<open>Issued tokens\<close>

text \<open>
  Claim C3. Whenever \<open>generateAuthTokens\<close> issues a pair of tokens for an identity, the
  payloads of the access token and of the refresh token carry the same subject claims,
  namely the identity's \<open>id\<close>, \<open>email\<close> and \<open>role\<close>; whatever \<open>verifyToken\<close> returns for
  the access token under the type \<open>access\<close> has these three values; and it does return
  claims at every time before the token's expiry, 900 seconds after issue.
\<close>

theorem issued_tokens_same_subject:
  assumes "generateAuthTokens e u t1 t2 = Inr toks"
  shows "(\<exists>ca cr. decodeToken (Text (accessToken toks)) = Some ca
            \<and> decodeToken (Text (refreshToken toks)) = Some cr
            \<and> userId ca = id' u \<and> email ca = email u \<and> role ca = role u
            \<and> userId cr = id' u \<and> email cr = email u \<and> role cr = role u)
       \<and> (\<forall>now c. verifyToken e (Text (accessToken toks)) ACCESS now = Inr c
             \<longrightarrow> userId c = id' u \<and> email c = email u \<and> role c = role u)
       \<and> (\<forall>now. now < t1 + 900
             \<longrightarrow> (\<exists>c. verifyToken e (Text (accessToken toks)) ACCESS now = Inr c))"
proof -
  let ?p = "\<lparr>email = email u, role = role u, userId = id' u,
             tokenType = Undefined, iat = None, nbf = None, exp = None\<rparr>"
  from assms obtain a r where a: "generateToken e ?p ACCESS t1 = Inr a"
    and r: "generateToken e ?p REFRESH t2 = Inr r"
    and toks: "toks = \<lparr>accessToken = a, refreshToken = r,
                       accessTokenExpiry = ACCESS_TOKEN_EXPIRY,
                       refreshTokenExpiry = REFRESH_TOKEN_EXPIRY\<rparr>"
    by (auto simp: generateAuthTokens_def Let_def split: sum.splits)
  from a obtain sa where sa: "getSecretByType e ACCESS = Inr sa"
    by (auto simp: generateToken_def split: sum.splits)
  then obtain ka where ka: "sa = Data (Str ka)" "ka \<noteq> []"
    using getSecretByType_known_Inr[of ACCESS e sa] by auto
  from r obtain sr where sr: "getSecretByType e REFRESH = Inr sr"
    by (auto simp: generateToken_def split: sum.splits)
  then obtain kr where kr: "sr = Data (Str kr)" "kr \<noteq> []"
    using getSecretByType_known_Inr[of REFRESH e sr] by auto
  have a_eq: "a = [Tok (JWT (?p\<lparr>tokenType := Str ACCESS, iat := Some t1, exp := Some (t1 + 900)\<rparr>) ka)]"
    using a generateToken_known[of e ACCESS ka ?p 900 t1] sa ka
    by (simp add: getExpiryByType_known)
  have r_eq: "r = [Tok (JWT (?p\<lparr>tokenType := Str REFRESH, iat := Some t2, exp := Some (t2 + 604800)\<rparr>) kr)]"
    using r generateToken_known[of e REFRESH kr ?p 604800 t2] sr kr
    by (simp add: getExpiryByType_known)
  have v: "verifyToken e (Text a) ACCESS now =
             (if t1 + 900 \<le> now then Inl TokenExpiredError
              else Inr (?p\<lparr>tokenType := Str ACCESS, iat := Some t1, exp := Some (t1 + 900)\<rparr>))" for now
    using sa ka by (simp add: a_eq verifyToken_signed)
  have 1: "\<exists>ca cr. decodeToken (Text (accessToken toks)) = Some ca
            \<and> decodeToken (Text (refreshToken toks)) = Some cr
            \<and> userId ca = id' u \<and> email ca = email u \<and> role ca = role u
            \<and> userId cr = id' u \<and> email cr = email u \<and> role cr = role u"
    by (simp add: toks a_eq r_eq decodeToken_def jwt_decode_def)
  have 2: "\<forall>now c. verifyToken e (Text (accessToken toks)) ACCESS now = Inr c
             \<longrightarrow> userId c = id' u \<and> email c = email u \<and> role c = role u"
    by (auto simp: toks v split: if_splits)
  have 3: "\<forall>now. now < t1 + 900
             \<longrightarrow> (\<exists>c. verifyToken e (Text (accessToken toks)) ACCESS now = Inr c)"
    by (simp add: toks v)
  from 1 2 3 show ?thesis by blast
qed

theorem issued_tokens_same_subject_witness:
  "\<exists>toks. generateAuthTokens env_shared alice 1000 1000 = Inr toks
      \<and> (\<exists>ca cr. decodeToken (Text (accessToken toks)) = Some ca
            \<and> decodeToken (Text (refreshToken toks)) = Some cr
            \<and> userId ca = Num 7 \<and> email ca = Str ''alice@example.org'' \<and> role ca = Str ''moderator''
            \<and> userId cr = Num 7 \<and> email cr = Str ''alice@example.org'' \<and> role cr = Str ''moderator'')
      \<and> (\<exists>c. verifyToken env_shared (Text (accessToken toks)) ACCESS 1899 = Inr c
            \<and> userId c = Num 7 \<and> email c = Str ''alice@example.org'' \<and> role c = Str ''moderator'')"
proof -
  obtain toks where g: "generateAuthTokens env_shared alice 1000 1000 = Inr toks"
    using generateAuthTokens_env_shared_alice by blast
  note t = issued_tokens_same_subject[OF g]
  from t obtain ca cr where d: "decodeToken (Text (accessToken toks)) = Some ca"
    "decodeToken (Text (refreshToken toks)) = Some cr"
    "userId ca = id' alice" "email ca = email alice" "role ca = role alice"
    "userId cr = id' alice" "email cr = email alice" "role cr = role alice"
    by blast
  from t have "(1899::nat) < 1000 + 900 \<longrightarrow> (\<exists>c. verifyToken env_shared (Text (accessToken toks)) ACCESS 1899 = Inr c)"
    by blast
  then obtain c where c: "verifyToken env_shared (Text (accessToken toks)) ACCESS 1899 = Inr c"
    by auto
  with t have s: "userId c = id' alice \<and> email c = email alice \<and> role c = role alice"
    by blast
  from g d c s show ?thesis
    by (simp add: alice_def)
qed

section \<open>Hashing on password writes\<close>

lemma create_bob:
  "create ''saltsaltsaltsaltsalt22'' bob = Inr (bob_row\<lparr>changed := {''displayName'', ''password''}\<rparr>)"
  by (simp add: create_def password_valid_def bob_def beforeCreate_def hashPassword_def
      bcrypt_genSalt_def bcrypt_hash_def set_password_def set_displayName_def bob_row_def insert_commute)

lemma save_bob_displayName:
  "save ''pepperpepperpepper0022'' (set_displayName (Some ''Bobby'') bob_row) =
     Inr (bob_row\<lparr>displayName := Some ''Bobby'', changed := {''displayName''}\<rparr>)"
  by (simp add: save_def beforeUpdate_def set_displayName_def bob_row_def)

lemma save_bob_password:
  "save ''pepperpepperpepper0022'' (set_password (Some (Plain ''N3wPassword!'')) bob_row) =
     Inr (bob_row\<lparr>password := Some (Bcrypt 10 ''pepperpepperpepper0022'' (Plain ''N3wPassword!'')),
                  changed := {''password''}\<rparr>)"
  by (simp add: save_def beforeUpdate_def set_password_def bob_row_def password_valid_def
      hashPassword_def bcrypt_genSalt_def bcrypt_hash_def)

text \<open>
  Claim C4. The password is hashed exactly when it is written. A row that \<open>create\<close>
  stores holds the bcrypt hash (cost 10, fresh salt) of the password that was supplied,
  never the supplied text. A row that \<open>save\<close> stores for an existing user holds a
  newly computed hash of the assigned password when \<open>password\<close> is among the changed
  attributes, and the password attribute exactly as it was when it is not.
\<close>

theorem password_hashed_on_write:
  "(create rnd u = Inr stored
      \<longrightarrow> (\<exists>p. password u = Some p \<and> password stored = Some (Bcrypt 10 rnd p)
               \<and> password stored \<noteq> password u))
   \<and> (save rnd u = Inr stored \<longrightarrow>
        (''password'' \<in> changed u
           \<longrightarrow> (\<exists>p. password u = Some p \<and> password stored = Some (Bcrypt 10 rnd p)
                    \<and> password stored \<noteq> password u))
      \<and> (''password'' \<notin> changed u \<longrightarrow> password stored = password u))"
proof -
  have c: "\<exists>p. password u = Some p \<and> password stored = Some (Bcrypt 10 rnd p)
               \<and> password stored \<noteq> password u"
    if "create rnd u = Inr stored"
  proof -
    from that have v: "password_valid u" and b: "beforeCreate rnd u = Inr stored"
      by (auto simp: create_def split: if_splits)
    from v obtain p where p: "password u = Some p" "p \<noteq> Plain []"
      using password_valid_truthy by blast
    from b have "password stored = Some (Bcrypt 10 rnd p)"
      by (auto simp: beforeCreate_def hashPassword_truthy[OF p] set_password_def set_displayName_def
          split: if_splits)
    with p show ?thesis by (simp add: Bcrypt_neq)
  qed
  have s1: "\<exists>p. password u = Some p \<and> password stored = Some (Bcrypt 10 rnd p)
               \<and> password stored \<noteq> password u"
    if "save rnd u = Inr stored" and ch: "''password'' \<in> changed u"
  proof -
    from that have v: "password_valid u" and b: "hashPassword rnd u = Inr stored"
      by (auto simp: save_def beforeUpdate_def split: if_splits)
    from v obtain p where p: "password u = Some p" "p \<noteq> Plain []"
      using password_valid_truthy by blast
    from b have "password stored = Some (Bcrypt 10 rnd p)"
      by (auto simp: hashPassword_truthy[OF p] set_password_def)
    with p show ?thesis by (simp add: Bcrypt_neq)
  qed
  have s2: "password stored = password u"
    if "save rnd u = Inr stored" and "''password'' \<notin> changed u"
    using that by (simp add: save_def beforeUpdate_def)
  from c s1 s2 show ?thesis by blast
qed

theorem password_hashed_on_write_witness:
  "(\<exists>stored. create ''saltsaltsaltsaltsalt22'' bob = Inr stored
      \<and> password stored = Some (Bcrypt 10 ''saltsaltsaltsaltsalt22'' (Plain ''Password123!''))
      \<and> password stored \<noteq> Some (Plain ''Password123!''))
   \<and> (\<exists>stored. save ''pepperpepperpepper0022'' (set_displayName (Some ''Bobby'') bob_row) = Inr stored
      \<and> password stored = Some (Bcrypt 10 ''saltsaltsaltsaltsalt22'' (Plain ''Password123!'')))
   \<and> (\<exists>stored. save ''pepperpepperpepper0022'' (set_password (Some (Plain ''N3wPassword!'')) bob_row) = Inr stored
      \<and> password stored = Some (Bcrypt 10 ''pepperpepperpepper0022'' (Plain ''N3wPassword!''))
      \<and> password stored \<noteq> Some (Plain ''N3wPassword!''))"
proof -
  have a: "\<exists>stored. create ''saltsaltsaltsaltsalt22'' bob = Inr stored
      \<and> password stored = Some (Bcrypt 10 ''saltsaltsaltsaltsalt22'' (Plain ''Password123!''))
      \<and> password stored \<noteq> Some (Plain ''Password123!'')"
    using password_hashed_on_write[of "''saltsaltsaltsaltsalt22''" bob
        "bob_row\<lparr>changed := {''displayName'', ''password''}\<rparr>", THEN conjunct1] create_bob
    by (simp add: bob_def)
  have b: "\<exists>stored. save ''pepperpepperpepper0022'' (set_displayName (Some ''Bobby'') bob_row) = Inr stored
      \<and> password stored = Some (Bcrypt 10 ''saltsaltsaltsaltsalt22'' (Plain ''Password123!''))"
    using password_hashed_on_write[of "''pepperpepperpepper0022''"
        "set_displayName (Some ''Bobby'') bob_row"
        "bob_row\<lparr>displayName := Some ''Bobby'', changed := {''displayName''}\<rparr>", THEN conjunct2]
      save_bob_displayName
    by (simp add: set_displayName_def bob_row_def)
  have c: "\<exists>stored. save ''pepperpepperpepper0022'' (set_password (Some (Plain ''N3wPassword!'')) bob_row) = Inr stored
      \<and> password stored = Some (Bcrypt 10 ''pepperpepperpepper0022'' (Plain ''N3wPassword!''))
      \<and> password stored \<noteq> Some (Plain ''N3wPassword!'')"
    using password_hashed_on_write[of "''pepperpepperpepper0022''"
        "set_password (Some (Plain ''N3wPassword!'')) bob_row"
        "bob_row\<lparr>password := Some (Bcrypt 10 ''pepperpepperpepper0022'' (Plain ''N3wPassword!'')),
                  changed := {''password''}\<rparr>", THEN conjunct2]
      save_bob_password
    by (simp add: set_password_def bob_row_def)
  from a b c show ?thesis by blast
qed

section \<open>A missing secret\<close>

text \<open>
  Claim C5 says that the error for an unresolvable secret aborts the start of the process
  and never surfaces on a call that signs or verifies. The code looks the secret up on
  every call and nowhere else: with no secret set, signing and verifying throw the
  error, and \<open>authenticate\<close> turns it into a 401 \<open>INVALID_TOKEN\<close> response.
\<close>

theorem configuration_error_per_call_counterexample:
  "generateToken env_unset alice_payload ACCESS 1000 = Inl (ConfigurationError ''access'')
   \<and> verifyToken env_unset (Text alice_access) ACCESS 1500 = Inl (ConfigurationError ''access'')
   \<and> authenticate env_unset 1500 (bearer alice_access) =
       Respond 401 (reject ''Invalid or expired token.'' ''INVALID_TOKEN'')"
  by (simp add: generateToken_def verifyToken_def authenticate_def getSecretByType_ACCESS
      env_unset_def getenv_def js_or_def bearer_header has_bearer_iff)
     (simp add: ACCESS_def)

text \<open>
  Claim C5, amended. For each of the three token types: when neither the type's own
  variable nor \<open>JWT_SECRET\<close> is set, every call of \<open>generateToken\<close> and of \<open>verifyToken\<close>
  for that type fails with the configuration error; when one of them is set, neither
  call ever fails with it.
\<close>

theorem configuration_error_per_call:
  assumes "type \<in> {ACCESS, REFRESH, RESET}"
  shows "(\<not> is_set e (secret_variable type) \<and> \<not> is_set e ''JWT_SECRET''
            \<longrightarrow> generateToken e payload type now = Inl (ConfigurationError type)
              \<and> verifyToken e token type now = Inl (ConfigurationError type))
       \<and> (is_set e (secret_variable type) \<or> is_set e ''JWT_SECRET''
            \<longrightarrow> (\<forall>t. generateToken e payload type now \<noteq> Inl (ConfigurationError t))
              \<and> (\<forall>t. verifyToken e token type now \<noteq> Inl (ConfigurationError t)))"
  using getSecretByType_known[OF assms, of e]
  by (auto simp: generateToken_def verifyToken_def Let_def jwt_sign_not_config jwt_verify_not_config)

theorem configuration_error_per_call_witness:
  "generateToken env_unset alice_payload REFRESH 1000 = Inl (ConfigurationError ''refresh'')
   \<and> verifyToken env_unset (Text alice_refresh) REFRESH 1500 = Inl (ConfigurationError ''refresh'')
   \<and> generateToken env_shared alice_payload REFRESH 1000 \<noteq> Inl (ConfigurationError ''refresh'')
   \<and> verifyToken env_shared (Text alice_refresh) REFRESH 1500 \<noteq> Inl (ConfigurationError ''refresh'')"
proof -
  have r: "REFRESH \<in> {ACCESS, REFRESH, RESET}" by simp
  have u: "\<not> is_set env_unset (secret_variable REFRESH) \<and> \<not> is_set env_unset ''JWT_SECRET''"
    by (simp add: is_set_def env_unset_def)
  have s: "is_set env_shared (secret_variable REFRESH) \<or> is_set env_shared ''JWT_SECRET''"
    by (simp add: is_set_def env_shared_def)
  note t = configuration_error_per_call[OF r]
  from t[where e = env_unset and payload = alice_payload and now = 1000
      and token = "Text alice_refresh", THEN conjunct1] u
  have 1: "generateToken env_unset alice_payload REFRESH 1000 = Inl (ConfigurationError REFRESH)"
    by blast
  from t[where e = env_unset and payload = alice_payload and now = 1500
      and token = "Text alice_refresh", THEN conjunct1] u
  have 2: "verifyToken env_unset (Text alice_refresh) REFRESH 1500 = Inl (ConfigurationError REFRESH)"
    by blast
  from t[where e = env_shared and payload = alice_payload and now = 1000
      and token = "Text alice_refresh", THEN conjunct2] s
  have 3: "generateToken env_shared alice_payload REFRESH 1000 \<noteq> Inl (ConfigurationError ''refresh'')"
    by blast
  from t[where e = env_shared and payload = alice_payload and now = 1500
      and token = "Text alice_refresh", THEN conjunct2] s
  have 4: "verifyToken env_shared (Text alice_refresh) REFRESH 1500 \<noteq> Inl (ConfigurationError ''refresh'')"
    by blast
  from 1 2 3 4 show ?thesis by (simp add: REFRESH_def)
qed

section \<open>Verification of a refresh token\<close>




section \<open>Authorisation\<close>

text \<open>
  Claim C7. \<open>authorize(...allowedRoles)\<close>: a request without an identity is answered 401
  \<open>NOT_AUTHENTICATED\<close>; an identity whose role is not among the allowed roles is answered
  403 \<open>INSUFFICIENT_PERMISSIONS\<close>, and the response carries the allowed roles as
  \<open>requiredRoles\<close> and the identity's role as \<open>userRole\<close>; otherwise the request passes.
\<close>

theorem authorize_decision:
  "(user req = None
      \<longrightarrow> authorize allowedRoles req =
            Respond 401 (reject ''User not authenticated.'' ''NOT_AUTHENTICATED''))
   \<and> (\<forall>u. user req = Some u \<longrightarrow>
        (role u \<notin> set allowedRoles
           \<longrightarrow> authorize allowedRoles req =
                 Respond 403
                   \<lparr>success = False,
                    message = ''You do not have permission to perform this action.'',
                    code = ''INSUFFICIENT_PERMISSIONS'',
                    requiredRoles = Some allowedRoles,
                    userRole = Some (role u)\<rparr>)
      \<and> (role u \<in> set allowedRoles \<longrightarrow> authorize allowedRoles req = Next req))"
  by (simp add: authorize_def)

theorem authorize_decision_witness:
  "authorize [Str ''admin''] (plain_request\<lparr>user := Some alice\<rparr>) =
     Respond 403
       \<lparr>success = False,
        message = ''You do not have permission to perform this action.'',
        code = ''INSUFFICIENT_PERMISSIONS'',
        requiredRoles = Some [Str ''admin''],
        userRole = Some (Str ''moderator'')\<rparr>
   \<and> authorize [Str ''admin'', Str ''moderator''] (plain_request\<lparr>user := Some alice\<rparr>) =
       Next (plain_request\<lparr>user := Some alice\<rparr>)
   \<and> authorize [Str ''admin''] plain_request =
       Respond 401 (reject ''User not authenticated.'' ''NOT_AUTHENTICATED'')"
  using authorize_decision[of "plain_request\<lparr>user := Some alice\<rparr>" "[Str ''admin'']"]
    authorize_decision[of "plain_request\<lparr>user := Some alice\<rparr>" "[Str ''admin'', Str ''moderator'']"]
    authorize_decision[of plain_request "[Str ''admin'']"]
  by (simp add: alice_def plain_request_def)

section \<open>Rate limiting\<close>

lemma serve_append:
  "serve limiter st now (xs @ ys) =
     (case serve limiter st now xs of
        (outs1, st1) \<Rightarrow> (case serve limiter st1 now ys of (outs2, st2) \<Rightarrow> (outs1 @ outs2, st2)))"
  by (induction xs arbitrary: st) (auto split: prod.splits)

lemma rateLimit_counted:
  assumes "skip cfg = None" and "keyGenerator cfg = None"
    and "st (ip req) = Some (hits, resetTime)" and "now < resetTime"
  shows "rateLimit cfg st now req =
           (if max' cfg < Suc hits then Respond 429 (message' cfg) else Next req,
            st(ip req \<mapsto> (Suc hits, resetTime)))"
  using assms by (simp add: rateLimit_def Let_def)

lemma rateLimit_fresh:
  assumes "skip cfg = None" and "keyGenerator cfg = None" and "st (ip req) = None"
  shows "rateLimit cfg st now req =
           (if max' cfg < Suc 0 then Respond 429 (message' cfg) else Next req,
            st(ip req \<mapsto> (Suc 0, now + windowMs cfg)))"
  using assms by (simp add: rateLimit_def Let_def)

lemma serve_within_limit:
  assumes "skip cfg = None" and "keyGenerator cfg = None"
    and "st (ip req) = Some (hits, resetTime)" and "now < resetTime"
    and "hits + n \<le> max' cfg"
  shows "serve (rateLimit cfg) st now (replicate n req) =
           (replicate n (Next req), st(ip req \<mapsto> (hits + n, resetTime)))"
  using assms(3,5)
proof (induction n arbitrary: st hits)
  case 0
  then show ?case by (simp add: fun_upd_idem)
next
  case (Suc n)
  let ?st = "st(ip req \<mapsto> (Suc hits, resetTime))"
  have "\<not> max' cfg < Suc hits"
    using Suc.prems(2) by simp
  then have step: "rateLimit cfg st now req = (Next req, ?st)"
    using rateLimit_counted[where cfg = cfg and st = st and req = req and hits = hits
        and resetTime = resetTime and now = now, OF assms(1,2) Suc.prems(1) assms(4)]
    by (simp only: if_False)
  have ih: "serve (rateLimit cfg) ?st now (replicate n req) =
          (replicate n (Next req), ?st(ip req \<mapsto> (Suc hits + n, resetTime)))"
  proof (rule Suc.IH)
    show "?st (ip req) = Some (Suc hits, resetTime)"
      by simp
    show "Suc hits + n \<le> max' cfg"
      using Suc.prems(2) by simp
  qed
  show ?case
    by (simp only: replicate_Suc serve.simps step ih split_conv fun_upd_upd add_Suc add_Suc_right)
qed

text \<open>
  The predicate itself is as intended, and a limiter that were configured with it would
  let the requests it selects pass uncounted.
\<close>

lemma skipRateLimit_iff:
  "skipRateLimit req \<longleftrightarrow>
     (\<exists>u. user req = Some u \<and> role u = Str ''admin'')
     \<or> path req = ''/api/health'' \<or> path req = ''/api/docs''"
  by (auto simp: skipRateLimit_def split: option.splits)

lemma rateLimit_with_skip:
  "skipRateLimit req \<Longrightarrow> rateLimit (cfg\<lparr>skip := Some skipRateLimit\<rparr>) st now req = (Next req, st)"
  by (simp add: rateLimit_def)

text \<open>
  Once a key has used up its window, each further request before the window ends is
  blocked with the configured message, and the first request after it passes.
\<close>

lemma rateLimit_blocked_until_reset:
  assumes "skip cfg = None" and "keyGenerator cfg = None"
    and "st (ip req) = Some (hits, resetTime)" and "max' cfg \<le> hits" and "0 < max' cfg"
  shows "now < resetTime \<Longrightarrow> fst (rateLimit cfg st now req) = Respond 429 (message' cfg)"
    and "resetTime \<le> now \<Longrightarrow> fst (rateLimit cfg st now req) = Next req"
  using assms by (simp_all add: rateLimit_def Let_def)

text \<open>
  Claim C8. Requests of an administrator and requests to the operational paths are
  exempt from throttling. \<open>skipRateLimit\<close> answers \<open>true\<close> for them, but no limiter is
  configured with it: \<open>generalLimiter\<close> has no \<open>skip\<close> option. Of 101 requests that an
  administrator sends from one address within one window, the first 100 pass and the
  last is answered 429 \<open>RATE_LIMIT_EXCEEDED\<close>.
\<close>

theorem admin_is_throttled:
  "skipRateLimit admin_request
   \<and> fst (serve generalLimiter Map.empty 0 (replicate 101 admin_request)) =
       replicate 100 (Next admin_request)
       @ [Respond 429 (reject ''Too many requests from this IP, please try again later.''
                         ''RATE_LIMIT_EXCEEDED'')]"
proof -
  let ?r = admin_request
  let ?st1 = "[ip ?r \<mapsto> (Suc 0, 0 + windowMs general)]"
  let ?st100 = "?st1(ip ?r \<mapsto> (Suc 0 + 99, 0 + windowMs general))"
  let ?st101 = "?st100(ip ?r \<mapsto> (Suc (Suc 0 + 99), 0 + windowMs general))"
  have cfg: "skip general = None" "keyGenerator general = None" "max' general = 100"
    "windowMs general = 900000"
    by (simp_all add: general_def)
  have s: "skipRateLimit ?r"
    by (simp add: skipRateLimit_def admin_request_def)
  have first: "rateLimit general Map.empty 0 ?r = (Next ?r, ?st1)"
    using rateLimit_fresh[where cfg = general and st = Map.empty and req = ?r
        and now = 0, OF cfg(1,2)]
    by (simp add: cfg)
  have middle: "serve (rateLimit general) ?st1 0 (replicate 99 ?r) =
      (replicate 99 (Next ?r), ?st100)"
    by (rule serve_within_limit[OF cfg(1,2)]) (simp_all add: cfg)
  have last: "rateLimit general ?st100 0 ?r = (Respond 429 (message' general), ?st101)"
    using rateLimit_counted[where cfg = general and st = ?st100 and req = ?r
        and hits = "Suc 0 + 99" and resetTime = "0 + windowMs general" and now = 0, OF cfg(1,2)]
    by (simp add: cfg)
  have tail: "serve (rateLimit general) ?st1 0 (replicate 99 ?r @ [?r]) =
      (replicate 99 (Next ?r) @ [Respond 429 (message' general)], ?st101)"
    by (simp only: serve_append middle split_conv serve.simps last)
  have all: "serve (rateLimit general) Map.empty 0 (?r # (replicate 99 ?r @ [?r])) =
      (Next ?r # (replicate 99 (Next ?r) @ [Respond 429 (message' general)]), ?st101)"
    by (simp only: serve.simps first split_conv tail)
  have split: "replicate 101 x = x # (replicate 99 x @ [x])" for x :: request
    by (simp add: eval_nat_numeral replicate_append_same)
  have join: "x # (replicate 99 x @ [y]) = replicate 100 x @ [y]" for x y :: outcome
    by (simp add: eval_nat_numeral)
  have "fst (serve (rateLimit general) Map.empty 0 (replicate 101 ?r)) =
          replicate 100 (Next ?r) @ [Respond 429 (message' general)]"
    by (simp only: split all fst_conv join)
  then show ?thesis
    using s by (simp add: generalLimiter_def general_def)
qed

section \<open>The credential hasher\<close>

text \<open>
  Claim C9 says that the hasher fails when the password is empty or absent.
  \<open>hashPassword\<close> returns normally and leaves such a row as it is.
\<close>

theorem hashPassword_empty_counterexample:
  "hashPassword ''saltsaltsaltsaltsalt22'' (bob\<lparr>password := Some (Plain [])\<rparr>) =
      Inr (bob\<lparr>password := Some (Plain [])\<rparr>)
   \<and> hashPassword ''saltsaltsaltsaltsalt22'' (bob\<lparr>password := None\<rparr>) = Inr (bob\<lparr>password := None\<rparr>)"
  by (simp add: hashPassword_def)

text \<open>
  Claim C9, amended. \<open>hashPassword\<close> never fails. A row whose password is empty or
  absent is returned unchanged (it is the validation of the model that rejects such a
  row before the hook runs); for every other password the row is returned with the
  bcrypt hash in its place.
\<close>

theorem hashPassword_outcome:
  "(password u = None \<or> password u = Some (Plain [])
      \<longrightarrow> hashPassword rnd u = Inr u \<and> create rnd u = Inl SequelizeValidationError)
   \<and> (\<forall>p. password u = Some p \<and> p \<noteq> Plain [] \<longrightarrow>
         hashPassword rnd u =
           Inr (u\<lparr>password := Some (Bcrypt 10 rnd p), changed := insert ''password'' (changed u)\<rparr>))"
  by (auto simp: hashPassword_def bcrypt_genSalt_def bcrypt_hash_def set_password_def Bcrypt_neq
      create_def password_valid_def)

theorem hashPassword_outcome_witness:
  "hashPassword ''saltsaltsaltsaltsalt22'' (bob\<lparr>password := None\<rparr>) = Inr (bob\<lparr>password := None\<rparr>)
   \<and> create ''saltsaltsaltsaltsalt22'' (bob\<lparr>password := None\<rparr>) = Inl SequelizeValidationError
   \<and> hashPassword ''saltsaltsaltsaltsalt22'' bob =
       Inr (bob\<lparr>password := Some (Bcrypt 10 ''saltsaltsaltsaltsalt22'' (Plain ''Password123!'')),
               changed := {''password''}\<rparr>)"
  using hashPassword_outcome[of "bob\<lparr>password := None\<rparr>" "''saltsaltsaltsaltsalt22''", THEN conjunct1]
    hashPassword_outcome[of bob "''saltsaltsaltsaltsalt22''", THEN conjunct2, THEN spec,
      of "Plain ''Password123!''"]
  by (simp add: bob_def)

section \<open>Token types outside the enumeration\<close>

text \<open>
  A type that is neither one of the three known types nor the name of a property that
  every object inherits has no entry in the table of secrets: signing and verifying fail
  with the configuration error, whatever the environment holds.
\<close>

lemma unknown_type_configuration_error:
  assumes "type \<notin> {ACCESS, REFRESH, RESET}" and "type \<notin> set object_prototype_keys"
  shows "generateToken e payload type now = Inl (ConfigurationError type)
       \<and> verifyToken e token type now = Inl (ConfigurationError type)"
proof -
  from assms have "getSecretByType e type = Inl (ConfigurationError type)"
    by (simp add: getSecretByType_def js_get_def)
  then show ?thesis
    by (simp add: generateToken_def verifyToken_def)
qed

lemma unknown_type_configuration_error_example:
  "generateToken env_shared alice_payload ''session'' 1000 = Inl (ConfigurationError ''session'')
   \<and> verifyToken env_shared (Text alice_access) ''session'' 1500 = Inl (ConfigurationError ''session'')"
proof -
  have a: "''session'' \<notin> {ACCESS, REFRESH, RESET}"
    by (simp add: jwt_consts)
  have b: "''session'' \<notin> set object_prototype_keys"
    by (simp add: object_prototype_keys_def)
  from unknown_type_configuration_error[OF a b, of env_shared alice_payload 1000]
    unknown_type_configuration_error[OF a b, of env_shared _ 1500 "Text alice_access"]
  show ?thesis by blast
qed

text \<open>
  Claim C10. Every type outside \<open>{access, refresh, reset}\<close> fails with the configuration
  error. For the type \<open>constructor\<close> the lookup \<open>secrets[type]\<close> finds the inherited
  property, which is truthy: \<open>getSecretByType\<close> returns it as the secret, with or without
  a configured secret, and the calls then fail in the token library with other errors.
\<close>

theorem inherited_type_name_passes_secret_check:
  "getSecretByType env_shared ''constructor'' = Inr (Builtin ''constructor'')
   \<and> getSecretByType env_unset ''constructor'' = Inr (Builtin ''constructor'')
   \<and> generateToken env_shared alice_payload ''constructor'' 1000 = Inl SignError
   \<and> verifyToken env_shared (Text alice_access) ''constructor'' 1500 = Inl JsonWebTokenError"
proof -
  have g: "getSecretByType e ''constructor'' = Inr (Builtin ''constructor'')" for e
    by (simp add: getSecretByType_def js_get_def jwt_consts object_prototype_keys_def)
  show ?thesis
    by (simp add: g generateToken_def verifyToken_def jwt_sign_def jwt_verify_def alice_access_def)
qed

end
